theory Spec2Isabelle
  imports Main
begin

section \<open>Values of the request body and of document fields\<close>

text \<open>
  The two endpoints of \<^verbatim>\<open>server.js\<close> read \<^verbatim>\<open>email\<close>, \<^verbatim>\<open>otp\<close> and \<^verbatim>\<open>uid\<close> from a JSON
  body and use them through truthiness tests, string conversion and equality
  queries. A value is any JSON value, or \<open>JUndefined\<close> for a field that is absent.

  A number is held as the string that \<^verbatim>\<open>Number.prototype.toString\<close> gives for it:
  \<open>JNum ''123456''\<close> is 123456, \<open>JNum ''0.5''\<close> is 0.5, \<open>JNum ''1e+21''\<close> is
  \<^verbatim>\<open>1e21\<close>. That string determines the number up to the sign of zero, so the
  endpoints cannot tell two numbers with the same string apart. An object is held
  as the list of its own properties, sorted by key, so that two objects are equal
  for the store exactly when they are equal here.
\<close>

datatype jsval =
    JUndefined
  | JNull
  | JBool bool
  | JNum string
  | JStr string
  | JArr "jsval list"
  | JObj "(string \<times> jsval) list"

text \<open>
  The test \<^verbatim>\<open>!v\<close> of the source is \<open>\<not> truthy v\<close>. The falsy numbers are
  \<^verbatim>\<open>0\<close>, \<^verbatim>\<open>-0\<close> (both print as \<^verbatim>\<open>0\<close>) and \<^verbatim>\<open>NaN\<close>; every array and every
  object is truthy.
\<close>

fun truthy :: "jsval \<Rightarrow> bool" where
  "truthy JUndefined = False"
| "truthy JNull = False"
| "truthy (JBool c) = c"
| "truthy (JNum form) = (form \<noteq> ''0'' \<and> form \<noteq> ''NaN'')"
| "truthy (JStr s) = (s \<noteq> [])"
| "truthy (JArr vs) = True"
| "truthy (JObj kvs) = True"

text \<open>
  \<^verbatim>\<open>Array.prototype.join\<close> with the separator \<^verbatim>\<open>,\<close> over the converted elements;
  the first conversion that throws ends it (\<open>Inl\<close> carries \<^verbatim>\<open>err.message\<close>).
\<close>

fun join_forms :: "(string + string) list \<Rightarrow> string + string" where
  "join_forms [] = Inr []"
| "join_forms [r] = r"
| "join_forms (r # rs) =
     (case r of
        Inl m \<Rightarrow> Inl m
      | Inr a \<Rightarrow> (case join_forms rs of Inl m \<Rightarrow> Inl m | Inr c \<Rightarrow> Inr (a @ '','' @ c)))"

text \<open>
  The conversion to a string that a template literal (\<^verbatim>\<open>`${otp}`\<close>, lines 55 and
  56) and \<^verbatim>\<open>join\<close> apply. An array is the join of its elements, \<^verbatim>\<open>null\<close> and
  \<^verbatim>\<open>undefined\<close> elements counting as empty. An object parsed from JSON or read from
  the store is \<^verbatim>\<open>[object Object]\<close>, unless it has an own property \<^verbatim>\<open>toString\<close>:
  that property is not a function, and the conversion throws a TypeError.
\<close>

fun ToString :: "jsval \<Rightarrow> string + string" where
  "ToString JUndefined = Inr ''undefined''"
| "ToString JNull = Inr ''null''"
| "ToString (JBool c) = Inr (if c then ''true'' else ''false'')"
| "ToString (JNum form) = Inr form"
| "ToString (JStr s) = Inr s"
| "ToString (JArr vs) =
     join_forms (map (\<lambda>v. if v = JUndefined \<or> v = JNull then Inr [] else ToString v) vs)"
| "ToString (JObj kvs) =
     (if ''toString'' \<in> fst ` set kvs
      then Inl ''Cannot convert object to primitive value''
      else Inr ''[object Object]'')"

text \<open>
  The method call \<^verbatim>\<open>v.toString()\<close>: a TypeError on \<^verbatim>\<open>undefined\<close> and \<^verbatim>\<open>null\<close>
  and on an object whose own property \<^verbatim>\<open>toString\<close> hides the method; otherwise
  the conversion above.
\<close>

fun toString :: "jsval \<Rightarrow> string + string" where
  "toString JUndefined = Inl ''Cannot read properties of undefined''"
| "toString JNull = Inl ''Cannot read properties of null''"
| "toString (JObj kvs) =
     (if ''toString'' \<in> fst ` set kvs
      then Inl ''toString is not a function''
      else Inr ''[object Object]'')"
| "toString v = ToString v"

section \<open>The users collection\<close>

text \<open>
  A document of the collection \<^verbatim>\<open>users\<close>, with the fields the endpoints read or
  write under their names in the source; every other field is kept in \<open>others\<close>.
  An absent field is \<open>JUndefined\<close> (what \<^verbatim>\<open>data?.otp\<close> yields) or \<open>None\<close>.
  The fields \<^verbatim>\<open>uid\<close>, \<^verbatim>\<open>email\<close>, \<^verbatim>\<open>otp\<close> and \<^verbatim>\<open>emailVerified\<close> hold values of
  the kinds above (strings, numbers, booleans, null, arrays, maps).
  The two timestamps are Firestore Timestamps, held as the milliseconds since the
  epoch that \<^verbatim>\<open>toDate()\<close> returns; an \<^verbatim>\<open>otpExpiresAt\<close> of another representation
  (the \<^verbatim>\<open>new Date(otpExpiresAt)\<close> arm of line 128) is not modelled.
\<close>

record user_doc =
  uid :: jsval
  email :: jsval
  otp :: jsval
  otpExpiresAt :: "int option"
  emailVerified :: jsval
  verifiedAt :: "int option"
  others :: "(string \<times> jsval) list"

definition no_fields :: user_doc where
  "no_fields = \<lparr>uid = JUndefined, email = JUndefined, otp = JUndefined,
     otpExpiresAt = None, emailVerified = JUndefined, verifiedAt = None, others = []\<rparr>"

text \<open>
  The collection: document ids with their documents, in the order in which the
  store answers a query (a \<^verbatim>\<open>limit(1)\<close> query returns the first match).
\<close>

type_synonym store = "(string \<times> user_doc) list"

definition getById :: "store \<Rightarrow> string \<Rightarrow> user_doc option" where
  "getById s k = map_of s k"

definition queryEquals :: "(user_doc \<Rightarrow> jsval) \<Rightarrow> jsval \<Rightarrow> store \<Rightarrow> (string \<times> user_doc) option" where
  "queryEquals field v s = find (\<lambda>kd. field (snd kd) = v) s"

definition modify :: "string \<Rightarrow> (user_doc \<Rightarrow> user_doc) \<Rightarrow> store \<Rightarrow> store" where
  "modify k f s = map (\<lambda>kd. if fst kd = k then (fst kd, f (snd kd)) else kd) s"

text \<open>
  \<^verbatim>\<open>ref.set(fields, {merge: true})\<close> writes the fields into the document and
  creates the document when there is none. \<^verbatim>\<open>ref.update(fields)\<close> writes them
  into an existing document and is rejected when there is none.
\<close>

definition mergeFields :: "string \<Rightarrow> (user_doc \<Rightarrow> user_doc) \<Rightarrow> store \<Rightarrow> store" where
  "mergeFields k f s =
     (if k \<in> fst ` set s then modify k f s else s @ [(k, f no_fields)])"

definition updateFields :: "string \<Rightarrow> (user_doc \<Rightarrow> user_doc) \<Rightarrow> store \<Rightarrow> string + store" where
  "updateFields k f s =
     (if k \<in> fst ` set s then Inr (modify k f s) else Inl ''NOT_FOUND: no document to update'')"

section \<open>Collaborators\<close>

datatype store_call = GetDoc | WhereUid | WhereEmail | SetMerge | Update

text \<open>What a request does to the outside, in order.\<close>

datatype event =
    SendMail jsval
  | DocGet string
  | QueryUid jsval
  | QueryEmail jsval
  | DocSet string
  | DocUpdate string
  | AuthUpdateUser jsval
  | ConsoleWarn
  | ConsoleError

fun store_event :: "event \<Rightarrow> bool" where
  "store_event (DocGet k) = True"
| "store_event (QueryUid v) = True"
| "store_event (QueryEmail v) = True"
| "store_event (DocSet k) = True"
| "store_event (DocUpdate k) = True"
| "store_event ev = False"

fun write_event :: "event \<Rightarrow> bool" where
  "write_event (DocSet k) = True"
| "write_event (DocUpdate k) = True"
| "write_event ev = False"

text \<open>
  What the surroundings decide for one request: the process clock
  (\<^verbatim>\<open>Date.now()\<close>, \<^verbatim>\<open>new Date()\<close>) and the store's server timestamp, in
  milliseconds; whether \<^verbatim>\<open>sendMail\<close>, a call to the store or \<^verbatim>\<open>updateUser\<close>
  throws (\<open>Some\<close> of the error's message); and what
  \<^verbatim>\<open>db.collection('users').doc(v)\<close> does with a \<open>v\<close> that is not a non-empty
  string: it throws or it returns a reference (\<open>Inr\<close> of its id).
\<close>

record env =
  clock :: int
  serverTime :: int
  sendMailFails :: "string option"
  storeFails :: "store_call \<Rightarrow> string option"
  updateUserFails :: "string option"
  docOfOther :: "jsval \<Rightarrow> string + string"

text \<open>
  \<^verbatim>\<open>db.collection('users').doc(v)\<close>: the reference with id \<open>v\<close> for a non-empty
  string (document ids are taken to be free of \<^verbatim>\<open>/\<close>).
\<close>

fun users_doc :: "env \<Rightarrow> jsval \<Rightarrow> string + string" where
  "users_doc e (JStr (c # cs)) = Inr (c # cs)"
| "users_doc e v = docOfOther e v"

text \<open>The calls to the store: the outcome and the event the call leaves.\<close>

definition docGet :: "env \<Rightarrow> store \<Rightarrow> string \<Rightarrow> (string + user_doc option) \<times> event list" where
  "docGet e s k =
     (case storeFails e GetDoc of Some m \<Rightarrow> Inl m | None \<Rightarrow> Inr (getById s k), [DocGet k])"

definition whereUid :: "env \<Rightarrow> store \<Rightarrow> jsval \<Rightarrow> (string + (string \<times> user_doc) option) \<times> event list" where
  "whereUid e s v =
     (case storeFails e WhereUid of Some m \<Rightarrow> Inl m | None \<Rightarrow> Inr (queryEquals uid v s),
      [QueryUid v])"

definition whereEmail :: "env \<Rightarrow> store \<Rightarrow> jsval \<Rightarrow> (string + (string \<times> user_doc) option) \<times> event list" where
  "whereEmail e s v =
     (case storeFails e WhereEmail of Some m \<Rightarrow> Inl m | None \<Rightarrow> Inr (queryEquals email v s),
      [QueryEmail v])"

definition docSet :: "env \<Rightarrow> store \<Rightarrow> string \<Rightarrow> (user_doc \<Rightarrow> user_doc) \<Rightarrow> (string + store) \<times> event list" where
  "docSet e s k f =
     (case storeFails e SetMerge of Some m \<Rightarrow> Inl m | None \<Rightarrow> Inr (mergeFields k f s),
      [DocSet k])"

definition docUpdate :: "env \<Rightarrow> store \<Rightarrow> string \<Rightarrow> (user_doc \<Rightarrow> user_doc) \<Rightarrow> (string + store) \<times> event list" where
  "docUpdate e s k f =
     (case storeFails e Update of Some m \<Rightarrow> Inl m | None \<Rightarrow> updateFields k f s,
      [DocUpdate k])"

section \<open>Requests and responses\<close>

record body =
  body_email :: jsval
  body_otp :: jsval
  body_uid :: jsval

text \<open>
  \<open>Json message user\<close> is the 200 response \<^verbatim>\<open>{success: true, message, user}\<close>
  (\<open>user\<close> is the pair \<^verbatim>\<open>{email, uid}\<close> when present); \<open>Failure status message\<close> is
  \<^verbatim>\<open>{success: false, error: message}\<close> sent with the status.
\<close>

datatype response = Json string "(jsval \<times> jsval) option" | Failure nat string

definition errorResponse :: "nat \<Rightarrow> string \<Rightarrow> response" where
  "errorResponse status message = Failure status message"

section \<open>sendOtp\<close>

text \<open>
  Lines 61 to 77. \<open>userDocRef\<close> is \<open>Some\<close> of a reference, \<open>None\<close> standing for a
  falsy value; \<open>userSnap\<close> is \<open>None\<close> for \<^verbatim>\<open>null\<close>, \<open>Some None\<close> for the snapshot of
  a document that does not exist.
\<close>

definition sendOtp_find :: "env \<Rightarrow> store \<Rightarrow> body \<Rightarrow> (string + string option) \<times> event list" where
  "sendOtp_find e s b =
     (case users_doc e (body_uid b) of
        Inl m \<Rightarrow> (Inl m, [])
      | Inr r0 \<Rightarrow>
          (let userDocRef = Some r0 in
           case (if truthy (body_uid b)
                 then (case docGet e s r0 of (Inl m, t) \<Rightarrow> (Inl m, t) | (Inr d, t) \<Rightarrow> (Inr (Some d), t))
                 else (Inr None, [])) of
             (Inl m, t1) \<Rightarrow> (Inl m, t1)
           | (Inr userSnap, t1) \<Rightarrow>
               if userSnap = None \<or> userSnap = Some None
               then
                 (case (if truthy (body_uid b)
                        then (case whereUid e s (body_uid b) of
                                (Inl m, t) \<Rightarrow> (Inl m, t)
                              | (Inr None, t) \<Rightarrow> (Inr userDocRef, t)
                              | (Inr (Some kd), t) \<Rightarrow> (Inr (Some (fst kd)), t))
                        else (Inr userDocRef, [])) of
                    (Inl m, t2) \<Rightarrow> (Inl m, t1 @ t2)
                  | (Inr userDocRef2, t2) \<Rightarrow>
                      if userDocRef2 = None
                      then (case whereEmail e s (body_email b) of
                              (Inl m, t3) \<Rightarrow> (Inl m, t1 @ t2 @ t3)
                            | (Inr None, t3) \<Rightarrow> (Inr userDocRef2, t1 @ t2 @ t3)
                            | (Inr (Some kd), t3) \<Rightarrow> (Inr (Some (fst kd)), t1 @ t2 @ t3))
                      else (Inr userDocRef2, t1 @ t2))
               else (Inr userDocRef, t1)))"

text \<open>Lines 79 to 84: the pending code and its expiry, five minutes from now.\<close>

definition sendOtp_save :: "env \<Rightarrow> store \<Rightarrow> body \<Rightarrow> string option \<Rightarrow> (string + store) \<times> event list" where
  "sendOtp_save e s b userDocRef =
     (let expiryAt = clock e + 5 * 60 * 1000 in
      case userDocRef of
        Some k \<Rightarrow>
          (case toString (body_otp b) of
             Inl m \<Rightarrow> (Inl m, [])
           | Inr code \<Rightarrow> docSet e s k (\<lambda>d. d\<lparr>otp := JStr code, otpExpiresAt := Some expiryAt\<rparr>))
      | None \<Rightarrow> (Inr s, [ConsoleWarn]))"

text \<open>
  The \<^verbatim>\<open>try\<close> block, lines 50 to 86: \<open>Inl\<close> is the error thrown. The text of
  the mail is built from the code before \<^verbatim>\<open>sendMail\<close> is called.
\<close>

definition sendOtp_try :: "env \<Rightarrow> store \<Rightarrow> body \<Rightarrow> (string + response) \<times> store \<times> event list" where
  "sendOtp_try e s b =
     (case ToString (body_otp b) of
        Inl m \<Rightarrow> (Inl m, s, [])
      | Inr text \<Rightarrow>
          (case sendMailFails e of
             Some m \<Rightarrow> (Inl m, s, [SendMail (body_email b)])
           | None \<Rightarrow>
               (case sendOtp_find e s b of
                  (Inl m, t1) \<Rightarrow> (Inl m, s, SendMail (body_email b) # t1)
                | (Inr userDocRef, t1) \<Rightarrow>
                    (case sendOtp_save e s b userDocRef of
                       (Inl m, t2) \<Rightarrow> (Inl m, s, SendMail (body_email b) # t1 @ t2)
                     | (Inr s', t2) \<Rightarrow>
                         (Inr (Json ''OTP sent successfully'' None), s',
                          SendMail (body_email b) # t1 @ t2)))))"

text \<open>The handler: the response, the collection afterwards, the events.\<close>

definition sendOtp :: "env \<Rightarrow> store \<Rightarrow> body \<Rightarrow> response \<times> store \<times> event list" where
  "sendOtp e s b =
     (if \<not> truthy (body_email b) \<or> \<not> truthy (body_otp b)
      then (errorResponse 400 ''Missing email or otp'', s, [])
      else
        (case sendOtp_try e s b of
           (Inl m, s', t) \<Rightarrow>
             (errorResponse 500 (''Failed to send OTP. '' @ m), s', t @ [ConsoleError])
         | (Inr r, s', t) \<Rightarrow> (r, s', t)))"

section \<open>verifyOtp\<close>

text \<open>
  Lines 100 to 115: the reference and the snapshot (\<open>None\<close> when
  \<^verbatim>\<open>userDocSnap.exists\<close> is false).
\<close>

definition verifyOtp_find :: "env \<Rightarrow> store \<Rightarrow> body \<Rightarrow> (string + string \<times> user_doc option) \<times> event list" where
  "verifyOtp_find e s b =
     (case users_doc e (body_uid b) of
        Inl m \<Rightarrow> (Inl m, [])
      | Inr r0 \<Rightarrow>
          (case docGet e s r0 of
             (Inl m, t1) \<Rightarrow> (Inl m, t1)
           | (Inr userDocSnap, t1) \<Rightarrow>
               if userDocSnap = None
               then
                 (case whereUid e s (body_uid b) of
                    (Inl m, t2) \<Rightarrow> (Inl m, t1 @ t2)
                  | (Inr (Some kd), t2) \<Rightarrow> (Inr (fst kd, Some (snd kd)), t1 @ t2)
                  | (Inr None, t2) \<Rightarrow>
                      (case whereEmail e s (body_email b) of
                         (Inl m, t3) \<Rightarrow> (Inl m, t1 @ t2 @ t3)
                       | (Inr (Some kd), t3) \<Rightarrow> (Inr (fst kd, Some (snd kd)), t1 @ t2 @ t3)
                       | (Inr None, t3) \<Rightarrow> (Inr (r0, userDocSnap), t1 @ t2 @ t3)))
               else (Inr (r0, userDocSnap), t1)))"

text \<open>
  Lines 117 to 133: \<open>Some\<close> of the response of an early return, \<open>None\<close> when every
  check has passed.
\<close>

definition verifyOtp_checks :: "env \<Rightarrow> user_doc option \<Rightarrow> body \<Rightarrow> string + response option" where
  "verifyOtp_checks e userDocSnap b =
     (case userDocSnap of
        None \<Rightarrow> Inr (Some (errorResponse 400 ''User not found in Firestore''))
      | Some data \<Rightarrow>
          (let storedOtp = otp data in
           if \<not> truthy storedOtp
           then Inr (Some (errorResponse 400 ''OTP not found. Request a new OTP''))
           else
             (case otpExpiresAt data of
                None \<Rightarrow> Inr (Some (errorResponse 400 ''OTP expiry missing. Request new OTP''))
              | Some expiryDate \<Rightarrow>
                  if clock e > expiryDate
                  then Inr (Some (errorResponse 400 ''OTP expired. Request new OTP''))
                  else
                    (case toString storedOtp of
                       Inl m \<Rightarrow> Inl m
                     | Inr stored \<Rightarrow>
                         (case toString (body_otp b) of
                            Inl m \<Rightarrow> Inl m
                          | Inr given \<Rightarrow>
                              if stored \<noteq> given
                              then Inr (Some (errorResponse 400 ''Invalid OTP''))
                              else Inr None)))))"

text \<open>The fields of the update of lines 136 to 141.\<close>

definition markVerified :: "env \<Rightarrow> user_doc \<Rightarrow> user_doc" where
  "markVerified e d =
     d\<lparr>emailVerified := JBool True, otp := JUndefined, otpExpiresAt := None,
       verifiedAt := Some (serverTime e)\<rparr>"

text \<open>Lines 144 to 149: the failure of the call is caught and logged.\<close>

definition verifyOtp_auth :: "env \<Rightarrow> body \<Rightarrow> event list" where
  "verifyOtp_auth e b =
     (case updateUserFails e of
        Some m \<Rightarrow> [AuthUpdateUser (body_uid b), ConsoleError]
      | None \<Rightarrow> [AuthUpdateUser (body_uid b)])"

text \<open>The \<^verbatim>\<open>try\<close> block, lines 99 to 151.\<close>

definition verifyOtp_try :: "env \<Rightarrow> store \<Rightarrow> body \<Rightarrow> (string + response) \<times> store \<times> event list" where
  "verifyOtp_try e s b =
     (case verifyOtp_find e s b of
        (Inl m, t1) \<Rightarrow> (Inl m, s, t1)
      | (Inr (userDocRef, userDocSnap), t1) \<Rightarrow>
          (case verifyOtp_checks e userDocSnap b of
             Inl m \<Rightarrow> (Inl m, s, t1)
           | Inr (Some r) \<Rightarrow> (Inr r, s, t1)
           | Inr None \<Rightarrow>
               (case docUpdate e s userDocRef (markVerified e) of
                  (Inl m, t2) \<Rightarrow> (Inl m, s, t1 @ t2)
                | (Inr s', t2) \<Rightarrow>
                    (Inr (Json ''Email verified successfully'' (Some (body_email b, body_uid b))),
                     s', t1 @ t2 @ verifyOtp_auth e b))))"

definition verifyOtp :: "env \<Rightarrow> store \<Rightarrow> body \<Rightarrow> response \<times> store \<times> event list" where
  "verifyOtp e s b =
     (if \<not> truthy (body_email b) \<or> \<not> truthy (body_otp b) \<or> \<not> truthy (body_uid b)
      then (errorResponse 400 ''Missing email, uid, or otp'', s, [])
      else
        (case verifyOtp_try e s b of
           (Inl m, s', t) \<Rightarrow>
             (errorResponse 500 (''Failed to verify OTP. '' @ m), s', t @ [ConsoleError])
         | (Inr r, s', t) \<Rightarrow> (r, s', t)))"

section \<open>Example data\<close>

text \<open>
  A request environment in which every collaborator answers and \<^verbatim>\<open>doc\<close> rejects
  what is not a non-empty string; a user with a pending code that expires at
  301000; requests for that user.
\<close>

definition env0 :: env where
  "env0 = \<lparr>clock = 1000, serverTime = 1002, sendMailFails = None,
     storeFails = (\<lambda>c. None), updateUserFails = None,
     docOfOther = (\<lambda>v. Inl ''Path must be a non-empty string'')\<rparr>"

definition alice :: user_doc where
  "alice = no_fields\<lparr>email := JStr ''a@x.com'', otp := JStr ''123456'',
     otpExpiresAt := Some 301000\<rparr>"

definition store1 :: store where
  "store1 = [(''u1'', alice)]"

definition body1 :: body where
  "body1 = \<lparr>body_email = JStr ''a@x.com'', body_otp = JStr ''123456'', body_uid = JStr ''u1''\<rparr>"

text \<open>
  Three documents that all answer to the identifiers of \<open>body1\<close>: \<open>u2\<close> by its
  \<^verbatim>\<open>uid\<close> field, \<open>u3\<close> by its \<^verbatim>\<open>email\<close> field, \<open>u1\<close> by its document id.
\<close>

definition store3 :: store where
  "store3 = [(''u2'', no_fields\<lparr>uid := JStr ''u1'', email := JStr ''b@x.com''\<rparr>),
             (''u3'', no_fields\<lparr>email := JStr ''a@x.com''\<rparr>),
             (''u1'', no_fields\<lparr>email := JStr ''c@x.com''\<rparr>)]"

text \<open>The same user before any code was issued.\<close>

definition newUser :: user_doc where
  "newUser = no_fields\<lparr>email := JStr ''a@x.com''\<rparr>"

definition store0 :: store where
  "store0 = [(''u1'', newUser)]"

section \<open>Facts about the store\<close>

lemmas store_calls = docGet_def whereUid_def whereEmail_def docSet_def docUpdate_def

lemmas handlers = verifyOtp_def verifyOtp_try_def verifyOtp_find_def verifyOtp_checks_def
  verifyOtp_auth_def markVerified_def sendOtp_def sendOtp_try_def sendOtp_find_def sendOtp_save_def
  docGet_def whereUid_def whereEmail_def docSet_def docUpdate_def
  getById_def queryEquals_def modify_def mergeFields_def updateFields_def errorResponse_def
  no_fields_def

lemmas examples = env0_def alice_def store1_def body1_def store3_def newUser_def store0_def

text \<open>On a value that passed \<^verbatim>\<open>!v\<close>, the method call gives what the conversion gave.\<close>

lemma toString_after_ToString: "truthy v \<Longrightarrow> ToString v = Inr c \<Longrightarrow> toString v = Inr c"
  by (cases v) (auto split: if_splits)

lemma users_doc_same: "docOfOther e2 = docOfOther e \<Longrightarrow> users_doc e2 v = users_doc e v"
  by (cases "(e, v)" rule: users_doc.cases) auto

lemma map_of_modify:
  "map_of (modify k f s) k' = (if k' = k then map_option f (map_of s k') else map_of s k')"
  by (induction s) (auto simp: modify_def)

lemma find_modify:
  assumes "\<And>d. field (f d) = field d"
  shows "find (\<lambda>kd. field (snd kd) = v) (modify k f s) =
         map_option (\<lambda>kd. if fst kd = k then (fst kd, f (snd kd)) else kd)
           (find (\<lambda>kd. field (snd kd) = v) s)"
  using assms by (induction s) (auto simp: modify_def)

lemma set_modify:
  "(k', d') \<in> set (modify k f s) \<Longrightarrow>
     (k', d') \<in> set s \<or> (\<exists>d. (k', d) \<in> set s \<and> k' = k \<and> d' = f d)"
  by (auto simp: modify_def split: if_splits)

lemma modify_mem: "(k, d) \<in> set s \<Longrightarrow> (k, f d) \<in> set (modify k f s)"
  by (force simp: modify_def)

lemma set_mergeFields:
  "(k', d') \<in> set (mergeFields k f s) \<Longrightarrow> (k', d') \<in> set s \<or> (\<exists>d. d' = f d)"
  by (auto simp: mergeFields_def dest: set_modify split: if_splits)

lemma find_mem: "find P s = Some x \<Longrightarrow> x \<in> set s"
  by (auto simp: find_Some_iff)

section \<open>Resolution in verifyOtp\<close>

lemma verifyOtp_find_mem:
  assumes "verifyOtp_find e s b = (Inr (k, Some d), t)"
  shows "(k, d) \<in> set s"
  using assms
  by (auto simp: verifyOtp_find_def store_calls getById_def queryEquals_def
      split: sum.splits option.splits if_splits dest: map_of_SomeD find_mem)

text \<open>
  An update that leaves \<^verbatim>\<open>uid\<close> and \<^verbatim>\<open>email\<close> alone does not change which
  document a request resolves to.
\<close>

lemma verifyOtp_find_again:
  assumes found: "verifyOtp_find e s b = (Inr (k, Some d), t)"
    and ok2: "storeFails e2 = (\<lambda>c. None)"
    and same: "docOfOther e2 = docOfOther e"
    and keep: "\<And>d. uid (f d) = uid d" "\<And>d. email (f d) = email d"
  shows "fst (verifyOtp_find e2 (modify k f s) b) = Inr (k, Some (f d))"
  using found
  by (auto simp: verifyOtp_find_def store_calls getById_def queryEquals_def map_of_modify
      find_modify [of uid, OF keep(1)] find_modify [of email, OF keep(2)]
      users_doc_same [OF same] ok2
      split: sum.splits option.splits if_splits)

text \<open>
  C4. In verifyOtp, resolution asks for the document whose id is the request's uid
  first; only when there is none does it query the \<^verbatim>\<open>uid\<close> field, and only when that
  finds nothing does it query the \<^verbatim>\<open>email\<close> field; the first hit is the record
  returned and no later lookup is made. So a document found by id is the one
  returned, whatever the two queries would have found; the lookup of sendOtp
  returns the document found by id in the same way.
\<close>

theorem verifyOtp_find_order:
  assumes ok: "storeFails e = (\<lambda>c. None)" and ref: "users_doc e (body_uid b) = Inr r0"
  shows "(getById s r0 = Some d \<longrightarrow>
            verifyOtp_find e s b = (Inr (r0, Some d), [DocGet r0]))
       \<and> (getById s r0 = None \<and> queryEquals uid (body_uid b) s = Some kd \<longrightarrow>
            verifyOtp_find e s b =
              (Inr (fst kd, Some (snd kd)), [DocGet r0, QueryUid (body_uid b)]))
       \<and> (getById s r0 = None \<and> queryEquals uid (body_uid b) s = None
            \<and> queryEquals email (body_email b) s = Some kd \<longrightarrow>
            verifyOtp_find e s b =
              (Inr (fst kd, Some (snd kd)),
               [DocGet r0, QueryUid (body_uid b), QueryEmail (body_email b)]))
       \<and> (getById s r0 = None \<and> queryEquals uid (body_uid b) s = None
            \<and> queryEquals email (body_email b) s = None \<longrightarrow>
            verifyOtp_find e s b =
              (Inr (r0, None), [DocGet r0, QueryUid (body_uid b), QueryEmail (body_email b)]))
       \<and> (truthy (body_uid b) \<and> getById s r0 = Some d \<longrightarrow>
            sendOtp_find e s b = (Inr (Some r0), [DocGet r0]))"
  using ok ref by (simp add: verifyOtp_find_def sendOtp_find_def store_calls)

theorem verifyOtp_find_order_witness:
  "storeFails env0 = (\<lambda>c. None) \<and> users_doc env0 (body_uid body1) = Inr ''u1''
   \<and> getById store3 ''u1'' = Some (no_fields\<lparr>email := JStr ''c@x.com''\<rparr>)
   \<and> fst ` set (filter (\<lambda>kd. uid (snd kd) = body_uid body1) store3) = {''u2''}
   \<and> fst ` set (filter (\<lambda>kd. email (snd kd) = body_email body1) store3) = {''u3''}
   \<and> verifyOtp_find env0 store3 body1 =
       (Inr (''u1'', Some (no_fields\<lparr>email := JStr ''c@x.com''\<rparr>)), [DocGet ''u1''])
   \<and> sendOtp_find env0 store3 body1 = (Inr (Some ''u1''), [DocGet ''u1''])"
  using verifyOtp_find_order [of env0 body1 "''u1''" store3 "no_fields\<lparr>email := JStr ''c@x.com''\<rparr>"]
  by (simp add: examples getById_def no_fields_def)

section \<open>Single use\<close>

lemma checks_compare:
  assumes "truthy (otp d)" "otpExpiresAt d = Some x" "clock e \<le> x"
    "toString (otp d) = Inr stored" "toString (body_otp b) = Inr given"
  shows "verifyOtp_checks e (Some d) b =
    (if stored = given then Inr None else Inr (Some (errorResponse 400 ''Invalid OTP'')))"
  using assms by (simp add: verifyOtp_checks_def Let_def)

lemma checks_pass:
  assumes "truthy (otp d)" "otpExpiresAt d = Some x" "clock e \<le> x"
    "toString (otp d) = Inr c" "toString (body_otp b) = Inr c"
  shows "verifyOtp_checks e (Some d) b = Inr None"
  using checks_compare [OF assms] by simp

text \<open>
  C1. A request resolves to a record with a pending code and an expiry; the
  submitted code and the stored code have the same string form \<open>c\<close> and the clock
  is before the expiry; the store answers. Then verifyOtp answers with the success response and
  one update of that record sets \<^verbatim>\<open>emailVerified\<close> to true, sets \<^verbatim>\<open>verifiedAt\<close>
  and removes \<^verbatim>\<open>otp\<close> and \<^verbatim>\<open>otpExpiresAt\<close>. The same request sent again, at any
  later clock, is answered with 400 "OTP not found. Request a new OTP".
\<close>

theorem verifyOtp_single_use:
  assumes ok: "storeFails e = (\<lambda>c. None)" and ok2: "storeFails e2 = (\<lambda>c. None)"
    and same_doc: "docOfOther e2 = docOfOther e"
    and req: "truthy (body_email b)" "truthy (body_otp b)" "truthy (body_uid b)"
    and found: "verifyOtp_find e s b = (Inr (k, Some d), t)"
    and pending: "truthy (otp d)" and expiry: "otpExpiresAt d = Some x" and before: "clock e < x"
    and same: "toString (otp d) = Inr c" "toString (body_otp b) = Inr c"
  shows "verifyOtp e s b =
           (Json ''Email verified successfully'' (Some (body_email b, body_uid b)),
            modify k (markVerified e) s, t @ [DocUpdate k] @ verifyOtp_auth e b)
       \<and> (k, markVerified e d) \<in> set (modify k (markVerified e) s)
       \<and> emailVerified (markVerified e d) = JBool True
       \<and> verifiedAt (markVerified e d) = Some (serverTime e)
       \<and> otp (markVerified e d) = JUndefined
       \<and> otpExpiresAt (markVerified e d) = None
       \<and> fst (verifyOtp e2 (modify k (markVerified e) s) b) =
           errorResponse 400 ''OTP not found. Request a new OTP''"
proof -
  have mem: "(k, d) \<in> set s" using found by (rule verifyOtp_find_mem)
  then have key: "k \<in> fst ` set s" by force
  have pass: "verifyOtp_checks e (Some d) b = Inr None"
    using pending expiry before same by (intro checks_pass) auto
  have first: "verifyOtp e s b =
           (Json ''Email verified successfully'' (Some (body_email b, body_uid b)),
            modify k (markVerified e) s, t @ [DocUpdate k] @ verifyOtp_auth e b)"
    using req found pass key ok
    by (simp add: verifyOtp_def verifyOtp_try_def docUpdate_def updateFields_def)
  have again: "fst (verifyOtp_find e2 (modify k (markVerified e) s) b) = Inr (k, Some (markVerified e d))"
    using found ok2 same_doc by (rule verifyOtp_find_again) (simp_all add: markVerified_def)
  have gone: "verifyOtp_checks e2 (Some (markVerified e d)) b =
      Inr (Some (errorResponse 400 ''OTP not found. Request a new OTP''))"
    by (simp add: verifyOtp_checks_def markVerified_def)
  have second: "fst (verifyOtp e2 (modify k (markVerified e) s) b) =
           errorResponse 400 ''OTP not found. Request a new OTP''"
    using req again gone
    by (cases "verifyOtp_find e2 (modify k (markVerified e) s) b")
       (simp add: verifyOtp_def verifyOtp_try_def)
  have fields: "emailVerified (markVerified e d) = JBool True
       \<and> verifiedAt (markVerified e d) = Some (serverTime e)
       \<and> otp (markVerified e d) = JUndefined
       \<and> otpExpiresAt (markVerified e d) = None"
    by (simp add: markVerified_def)
  show ?thesis
    using first second modify_mem [OF mem, of "markVerified e"] fields
    by simp
qed

theorem verifyOtp_single_use_witness:
  "verifyOtp env0 store1 body1 =
     (Json ''Email verified successfully'' (Some (JStr ''a@x.com'', JStr ''u1'')),
      [(''u1'', markVerified env0 alice)],
      [DocGet ''u1'', DocUpdate ''u1'', AuthUpdateUser (JStr ''u1'')])
   \<and> fst (verifyOtp (env0\<lparr>clock := 2000\<rparr>) [(''u1'', markVerified env0 alice)] body1) =
       Failure 400 ''OTP not found. Request a new OTP''"
  using verifyOtp_single_use [of env0 "env0\<lparr>clock := 2000\<rparr>" body1 store1 "''u1''" alice
      "[DocGet ''u1'']" 301000 "''123456''"]
  by (simp add: handlers examples)

section \<open>Expiry\<close>

text \<open>
  C5, as stated, at the instant of expiry: the clock is not strictly before
  \<^verbatim>\<open>otpExpiresAt\<close>, the submitted code matches, and the attempt is not answered
  with "OTP expired": it succeeds and consumes the code.
\<close>

theorem expiry_instant_counterexample:
  "otpExpiresAt alice = Some (clock (env0\<lparr>clock := 301000\<rparr>))
   \<and> \<not> clock (env0\<lparr>clock := 301000\<rparr>) < 301000
   \<and> toString (otp alice) = toString (body_otp body1)
   \<and> verifyOtp (env0\<lparr>clock := 301000\<rparr>) store1 body1 =
       (Json ''Email verified successfully'' (Some (JStr ''a@x.com'', JStr ''u1'')),
        [(''u1'', markVerified env0 alice)],
        [DocGet ''u1'', DocUpdate ''u1'', AuthUpdateUser (JStr ''u1'')])"
  by (simp add: handlers examples)

text \<open>
  C5, amended. For a request that resolves to a record with a pending code and an
  expiry: when the clock is strictly after \<^verbatim>\<open>otpExpiresAt\<close> the answer is 400
  "OTP expired. Request new OTP", whatever code was submitted, and nothing is
  written; when the clock is at or before \<^verbatim>\<open>otpExpiresAt\<close> the answer is never
  that one.
\<close>

theorem verifyOtp_expired_after:
  assumes req: "truthy (body_email b)" "truthy (body_otp b)" "truthy (body_uid b)"
    and found: "verifyOtp_find e s b = (Inr (k, Some d), t)"
    and pending: "truthy (otp d)" and expiry: "otpExpiresAt d = Some x"
  shows "(x < clock e \<longrightarrow>
            verifyOtp e s b = (errorResponse 400 ''OTP expired. Request new OTP'', s, t))
       \<and> (clock e \<le> x \<longrightarrow>
            fst (verifyOtp e s b) \<noteq> errorResponse 400 ''OTP expired. Request new OTP'')"
  using assms
  by (auto simp: verifyOtp_def verifyOtp_try_def verifyOtp_checks_def errorResponse_def Let_def
      split: sum.splits option.splits prod.splits)

theorem verifyOtp_expired_after_witness:
  "verifyOtp (env0\<lparr>clock := 301001\<rparr>) store1 body1 =
      (Failure 400 ''OTP expired. Request new OTP'', store1, [DocGet ''u1''])
   \<and> fst (verifyOtp (env0\<lparr>clock := 301000\<rparr>) store1 body1) \<noteq>
      Failure 400 ''OTP expired. Request new OTP''"
  using verifyOtp_expired_after [of body1 "env0\<lparr>clock := 301001\<rparr>" store1 "''u1''" alice
      "[DocGet ''u1'']" 301000]
    verifyOtp_expired_after [of body1 "env0\<lparr>clock := 301000\<rparr>" store1 "''u1''" alice
      "[DocGet ''u1'']" 301000]
  by (simp add: handlers examples)

section \<open>Failed verification\<close>

lemma verifyOtp_find_reads:
  "verifyOtp_find e s b = (r, t) \<Longrightarrow> \<forall>ev \<in> set t. \<not> write_event ev"
  by (auto simp: verifyOtp_find_def store_calls split: sum.splits option.splits if_splits)

text \<open>The early returns of lines 117 to 133 are these five responses.\<close>

lemma verifyOtp_checks_exits:
  "verifyOtp_checks e snap b = Inr (Some r) \<Longrightarrow>
     r \<in> {Failure 400 ''User not found in Firestore'',
          Failure 400 ''OTP not found. Request a new OTP'',
          Failure 400 ''OTP expiry missing. Request new OTP'',
          Failure 400 ''OTP expired. Request new OTP'',
          Failure 400 ''Invalid OTP''}"
  by (auto simp: verifyOtp_checks_def errorResponse_def Let_def
      split: sum.splits option.splits if_splits)

lemma verifyOtp_try_failure:
  assumes "verifyOtp_try e s b = (r, s', t)"
  shows "(\<forall>m. r = Inl m \<longrightarrow> s' = s)
       \<and> (\<forall>st m. r = Inr (Failure st m) \<longrightarrow>
            s' = s \<and> st = 400 \<and> m \<noteq> [] \<and> (\<forall>ev \<in> set t. \<not> write_event ev))"
  using assms
  apply (simp add: verifyOtp_try_def split: sum.splits option.splits prod.splits)
    apply (auto dest: verifyOtp_find_reads verifyOtp_checks_exits)
  done

text \<open>
  C6. Whenever verifyOtp answers with a failure, the collection is what it was
  and the failure carries a non-empty message; for a 400 answer, which every exit
  before the update is (user not found, no pending code, no expiry, expired,
  invalid code, missing field), no write was even sent to the store.
\<close>

theorem verifyOtp_failure_commits_nothing:
  assumes "fst (verifyOtp e s b) = Failure st m"
  shows "fst (snd (verifyOtp e s b)) = s \<and> m \<noteq> []
       \<and> (st = 400 \<longrightarrow> (\<forall>ev \<in> set (snd (snd (verifyOtp e s b))). \<not> write_event ev))"
proof (cases "verifyOtp_try e s b")
  case (fields r s' t)
  from verifyOtp_try_failure [OF fields] assms fields show ?thesis
    by (cases r) (auto simp: verifyOtp_def errorResponse_def split: if_splits)
qed

theorem verifyOtp_failure_commits_nothing_witness:
  "verifyOtp env0 store1 (body1\<lparr>body_otp := JStr ''000000''\<rparr>) =
     (Failure 400 ''Invalid OTP'', store1, [DocGet ''u1''])"
  using verifyOtp_failure_commits_nothing [of env0 store1 "body1\<lparr>body_otp := JStr ''000000''\<rparr>"
      400 "''Invalid OTP''"]
  by (simp add: handlers examples)

section \<open>Failed delivery\<close>

text \<open>
  C7. \<^verbatim>\<open>sendMail\<close> throws for a request that has an email and a code. When the
  mail could be built, sendOtp attempts the delivery, answers 500 with the error's
  message and logs it; when building the text of the mail already throws, the
  delivery is not even attempted and the answer is 500 with that error. In both
  cases the collection is what it was and no call to the store is made.
\<close>

theorem sendOtp_delivery_failure:
  assumes "truthy (body_email b)" "truthy (body_otp b)" "sendMailFails e = Some m"
  shows "sendOtp e s b =
           (case ToString (body_otp b) of
              Inr text \<Rightarrow>
                (errorResponse 500 (''Failed to send OTP. '' @ m), s,
                 [SendMail (body_email b), ConsoleError])
            | Inl err \<Rightarrow>
                (errorResponse 500 (''Failed to send OTP. '' @ err), s, [ConsoleError]))
       \<and> fst (snd (sendOtp e s b)) = s
       \<and> (\<forall>ev \<in> set (snd (snd (sendOtp e s b))). \<not> store_event ev)"
  using assms by (simp add: sendOtp_def sendOtp_try_def split: sum.splits)

theorem sendOtp_delivery_failure_witness:
  "sendOtp (env0\<lparr>sendMailFails := Some ''Invalid login''\<rparr>) store1 body1 =
     (Failure 500 ''Failed to send OTP. Invalid login'', store1,
      [SendMail (JStr ''a@x.com''), ConsoleError])"
  using sendOtp_delivery_failure [of body1 "env0\<lparr>sendMailFails := Some ''Invalid login''\<rparr>"
      "''Invalid login''" store1]
  by (simp add: examples errorResponse_def)

section \<open>The identity provider\<close>

lemma verifyOtp_find_no_auth:
  "verifyOtp_find e s b = (r, t) \<Longrightarrow> AuthUpdateUser u \<notin> set t"
  by (auto simp: verifyOtp_find_def store_calls split: sum.splits option.splits if_splits)

text \<open>\<^verbatim>\<open>updateUser\<close> is called only after the update of the record went through.\<close>

lemma verifyOtp_try_auth:
  assumes "verifyOtp_try e s b = (r, s', t)" "AuthUpdateUser u \<in> set t"
  shows "r = Inr (Json ''Email verified successfully'' (Some (body_email b, body_uid b)))
       \<and> (\<exists>k t1. k \<in> fst ` set s \<and> s' = modify k (markVerified e) s
            \<and> t = t1 @ verifyOtp_auth e b)"
  using assms
  apply (simp add: verifyOtp_try_def docUpdate_def updateFields_def
      split: sum.splits option.splits prod.splits if_splits)
       apply (auto dest: verifyOtp_find_no_auth)
  done

lemma store_calls_auth_indep [simp]:
  "docGet (e\<lparr>updateUserFails := x\<rparr>) = docGet e"
  "whereUid (e\<lparr>updateUserFails := x\<rparr>) = whereUid e"
  "whereEmail (e\<lparr>updateUserFails := x\<rparr>) = whereEmail e"
  "docUpdate (e\<lparr>updateUserFails := x\<rparr>) = docUpdate e"
  "users_doc (e\<lparr>updateUserFails := x\<rparr>) = users_doc e"
  "markVerified (e\<lparr>updateUserFails := x\<rparr>) = markVerified e"
  by (simp_all add: store_calls markVerified_def fun_eq_iff users_doc_same)

lemma verifyOtp_find_auth_indep [simp]:
  "verifyOtp_find (e\<lparr>updateUserFails := x\<rparr>) s b = verifyOtp_find e s b"
  by (simp add: verifyOtp_find_def cong: sum.case_cong prod.case_cong option.case_cong if_cong)

lemma verifyOtp_checks_auth_indep [simp]:
  "verifyOtp_checks (e\<lparr>updateUserFails := x\<rparr>) snap b = verifyOtp_checks e snap b"
  by (simp add: verifyOtp_checks_def cong: option.case_cong if_cong)

lemma verifyOtp_try_without_auth_failure:
  assumes "verifyOtp_try e s b = (Inr (Json msg usr), s', t)" "updateUserFails e = Some m"
  shows "verifyOtp_try (e\<lparr>updateUserFails := None\<rparr>) s b = (Inr (Json msg usr), s', butlast t)
       \<and> t = butlast t @ [ConsoleError]"
  using assms
  apply (simp add: verifyOtp_try_def verifyOtp_auth_def
      split: sum.splits option.splits prod.splits)
   apply (auto simp: butlast_append dest: verifyOtp_checks_exits)
  done

text \<open>
  C8. \<^verbatim>\<open>updateUser\<close> throws in an attempt that got as far as calling it. The
  caller still receives the success response with the email and uid of the
  request; the response and the collection are those of the same attempt with
  \<^verbatim>\<open>updateUser\<close> succeeding, so the update of the record stands; and the only
  difference is one more log line at the end.
\<close>

theorem verifyOtp_auth_failure_swallowed:
  assumes fails: "updateUserFails e = Some m"
    and verified: "AuthUpdateUser u \<in> set (snd (snd (verifyOtp e s b)))"
  shows "fst (verifyOtp e s b) =
           Json ''Email verified successfully'' (Some (body_email b, body_uid b))
       \<and> fst (verifyOtp e s b) = fst (verifyOtp (e\<lparr>updateUserFails := None\<rparr>) s b)
       \<and> fst (snd (verifyOtp e s b)) = fst (snd (verifyOtp (e\<lparr>updateUserFails := None\<rparr>) s b))
       \<and> (\<exists>k. k \<in> fst ` set s \<and> fst (snd (verifyOtp e s b)) = modify k (markVerified e) s)
       \<and> snd (snd (verifyOtp e s b)) =
           snd (snd (verifyOtp (e\<lparr>updateUserFails := None\<rparr>) s b)) @ [ConsoleError]"
proof (cases "verifyOtp_try e s b")
  case (fields r s' t)
  have tr: "AuthUpdateUser u \<in> set t"
    using verified fields by (auto simp: verifyOtp_def split: if_splits sum.splits)
  from verifyOtp_try_auth [OF fields tr]
  obtain k t1 where r: "r = Inr (Json ''Email verified successfully'' (Some (body_email b, body_uid b)))"
    and k: "k \<in> fst ` set s" and s': "s' = modify k (markVerified e) s"
    by blast
  have ok: "verifyOtp_try (e\<lparr>updateUserFails := None\<rparr>) s b = (r, s', butlast t) \<and> t = butlast t @ [ConsoleError]"
    using fields r fails by (auto dest: verifyOtp_try_without_auth_failure)
  have missing: "truthy (body_email b) \<and> truthy (body_otp b) \<and> truthy (body_uid b)"
    using verified by (auto simp: verifyOtp_def split: if_splits)
  show ?thesis
    using fields r k s' ok missing by (auto simp: verifyOtp_def)
qed

theorem verifyOtp_auth_failure_swallowed_witness:
  "verifyOtp (env0\<lparr>updateUserFails := Some ''no such user''\<rparr>) store1 body1 =
     (Json ''Email verified successfully'' (Some (JStr ''a@x.com'', JStr ''u1'')),
      [(''u1'', markVerified env0 alice)],
      [DocGet ''u1'', DocUpdate ''u1'', AuthUpdateUser (JStr ''u1''), ConsoleError])
   \<and> fst (verifyOtp env0 store1 body1) =
       Json ''Email verified successfully'' (Some (JStr ''a@x.com'', JStr ''u1''))"
  using verifyOtp_auth_failure_swallowed [of "env0\<lparr>updateUserFails := Some ''no such user''\<rparr>"
      "''no such user''" "JStr ''u1''" store1 body1]
  by (simp add: handlers examples)

section \<open>What the two endpoints write\<close>

lemma sendOtp_find_reads:
  "sendOtp_find e s b = (r, t) \<Longrightarrow> \<forall>ev \<in> set t. \<not> write_event ev"
  by (auto simp: sendOtp_find_def store_calls Let_def split: sum.splits option.splits if_splits)

lemma sendOtp_store_cases:
  "fst (snd (sendOtp e s b)) = s \<or>
   (\<exists>k code. toString (body_otp b) = Inr code \<and>
      fst (snd (sendOtp e s b)) =
        mergeFields k (\<lambda>d. d\<lparr>otp := JStr code, otpExpiresAt := Some (clock e + 5 * 60 * 1000)\<rparr>) s)"
  by (auto simp: sendOtp_def sendOtp_try_def sendOtp_save_def docSet_def Let_def
      split: sum.splits option.splits prod.splits)

text \<open>
  \<open>userDocRef\<close> starts as the reference that \<^verbatim>\<open>doc(uid)\<close> returns, so the test
  \<^verbatim>\<open>!userDocRef\<close> of line 73 never holds: the lookup never ends without a
  reference and the query on \<^verbatim>\<open>email\<close> is never sent.
\<close>

lemma sendOtp_find_skips_email:
  "sendOtp_find e s b = (r, t) \<Longrightarrow> r \<noteq> Inr None \<and> QueryEmail v \<notin> set t"
  by (auto simp: sendOtp_find_def store_calls Let_def split: sum.splits option.splits if_splits)

lemma sendOtp_success_writes:
  assumes "fst (sendOtp e s b) = Json msg usr"
  shows "\<exists>k code. toString (body_otp b) = Inr code \<and>
      fst (snd (sendOtp e s b)) =
        mergeFields k (\<lambda>d. d\<lparr>otp := JStr code, otpExpiresAt := Some (clock e + 5 * 60 * 1000)\<rparr>) s"
  using assms
  by (auto simp: sendOtp_def sendOtp_try_def sendOtp_save_def docSet_def Let_def errorResponse_def
      split: sum.splits option.splits prod.splits if_splits dest: sendOtp_find_skips_email)

lemma verifyOtp_store_cases:
  "fst (snd (verifyOtp e s b)) = s \<or>
   (\<exists>k. fst (snd (verifyOtp e s b)) = modify k (markVerified e) s)"
  by (auto simp: verifyOtp_def verifyOtp_try_def docUpdate_def updateFields_def
      split: sum.splits option.splits prod.splits if_splits)

lemma no_writes: "\<forall>ev \<in> set t. \<not> write_event ev \<Longrightarrow> filter write_event t = []"
  by (induction t) auto

lemma sendOtp_one_write:
  "length (filter write_event (snd (snd (sendOtp e s b)))) \<le> 1"
  by (auto simp: sendOtp_def sendOtp_try_def sendOtp_save_def docSet_def Let_def
      split: sum.splits option.splits prod.splits dest!: sendOtp_find_reads no_writes)

lemma verifyOtp_one_write:
  "length (filter write_event (snd (snd (verifyOtp e s b)))) \<le> 1"
  by (auto simp: verifyOtp_def verifyOtp_try_def docUpdate_def verifyOtp_auth_def
      split: sum.splits option.splits prod.splits dest!: verifyOtp_find_reads no_writes)

text \<open>
  C9. Every document of the collection after sendOtp is a document it had before,
  or one in which the request wrote both a string \<^verbatim>\<open>otp\<close> and an
  \<^verbatim>\<open>otpExpiresAt\<close>; every document after verifyOtp is one it had before, or one
  from which the request removed both. So no document that either endpoint has
  written has one of the two fields without the other, and each request sends at
  most one write, which carries the pair.
\<close>

theorem otp_pair_written_together:
  "(\<forall>kd \<in> set (fst (snd (sendOtp e s b))).
       kd \<in> set s \<or>
       (\<exists>code. otp (snd kd) = JStr code) \<and> otpExpiresAt (snd kd) = Some (clock e + 5 * 60 * 1000))
   \<and> (\<forall>kd \<in> set (fst (snd (verifyOtp e s b))).
       kd \<in> set s \<or> otp (snd kd) = JUndefined \<and> otpExpiresAt (snd kd) = None)
   \<and> (\<forall>kd \<in> set (fst (snd (sendOtp e s b))) \<union> set (fst (snd (verifyOtp e s b))).
       kd \<in> set s \<or> (otp (snd kd) = JUndefined) = (otpExpiresAt (snd kd) = None))
   \<and> length (filter write_event (snd (snd (sendOtp e s b)))) \<le> 1
   \<and> length (filter write_event (snd (snd (verifyOtp e s b)))) \<le> 1"
proof -
  have send: "kd \<in> set s \<or>
       (\<exists>code. otp (snd kd) = JStr code) \<and> otpExpiresAt (snd kd) = Some (clock e + 5 * 60 * 1000)"
    if mem: "kd \<in> set (fst (snd (sendOtp e s b)))" for kd
  proof -
    from sendOtp_store_cases [of e s b] show ?thesis
    proof
      assume "fst (snd (sendOtp e s b)) = s"
      with mem show ?thesis by simp
    next
      assume "\<exists>k code. toString (body_otp b) = Inr code \<and>
        fst (snd (sendOtp e s b)) =
          mergeFields k (\<lambda>d. d\<lparr>otp := JStr code, otpExpiresAt := Some (clock e + 5 * 60 * 1000)\<rparr>) s"
      then obtain k code where "fst (snd (sendOtp e s b)) =
          mergeFields k (\<lambda>d. d\<lparr>otp := JStr code, otpExpiresAt := Some (clock e + 5 * 60 * 1000)\<rparr>) s"
        by blast
      with mem have "(fst kd, snd kd) \<in> set
          (mergeFields k (\<lambda>d. d\<lparr>otp := JStr code, otpExpiresAt := Some (clock e + 5 * 60 * 1000)\<rparr>) s)"
        by simp
      from set_mergeFields [OF this] show ?thesis by auto
    qed
  qed
  have verify: "kd \<in> set s \<or> otp (snd kd) = JUndefined \<and> otpExpiresAt (snd kd) = None"
    if mem: "kd \<in> set (fst (snd (verifyOtp e s b)))" for kd
  proof -
    from verifyOtp_store_cases [of e s b] show ?thesis
    proof
      assume "fst (snd (verifyOtp e s b)) = s"
      with mem show ?thesis by simp
    next
      assume "\<exists>k. fst (snd (verifyOtp e s b)) = modify k (markVerified e) s"
      then obtain k where "fst (snd (verifyOtp e s b)) = modify k (markVerified e) s"
        by blast
      with mem have "(fst kd, snd kd) \<in> set (modify k (markVerified e) s)"
        by simp
      from set_modify [OF this] show ?thesis by (auto simp: markVerified_def)
    qed
  qed
  have both: "kd \<in> set s \<or> (otp (snd kd) = JUndefined) = (otpExpiresAt (snd kd) = None)"
    if "kd \<in> set (fst (snd (sendOtp e s b))) \<union> set (fst (snd (verifyOtp e s b)))" for kd
    using that send [of kd] verify [of kd] by auto
  show ?thesis
    using send verify both sendOtp_one_write [of e s b] verifyOtp_one_write [of e s b]
    by blast
qed

theorem otp_pair_written_together_witness:
  "sendOtp env0 store0 body1 =
     (Json ''OTP sent successfully'' None,
      [(''u1'', newUser\<lparr>otp := JStr ''123456'', otpExpiresAt := Some 301000\<rparr>)],
      [SendMail (JStr ''a@x.com''), DocGet ''u1'', DocSet ''u1''])
   \<and> verifyOtp env0 store1 body1 =
     (Json ''Email verified successfully'' (Some (JStr ''a@x.com'', JStr ''u1'')),
      [(''u1'', alice\<lparr>emailVerified := JBool True, otp := JUndefined, otpExpiresAt := None,
          verifiedAt := Some 1002\<rparr>)],
      [DocGet ''u1'', DocUpdate ''u1'', AuthUpdateUser (JStr ''u1'')])"
  using otp_pair_written_together [of env0 store0 body1]
    otp_pair_written_together [of env0 store1 body1]
  by (simp add: handlers examples)

section \<open>String forms of the code\<close>

text \<open>
  C10. Every document that sendOtp has written holds, as \<^verbatim>\<open>otp\<close>, the string
  that \<^verbatim>\<open>toString()\<close> gives for the submitted value, whatever its type, and a
  request answered with success has written it. In verifyOtp the comparison of
  line 131 is between string forms: for a record with a pending code that is not
  expired, a submitted value passes exactly when its string form is the stored
  value's, and is answered "Invalid OTP", with nothing written, exactly when the
  two string forms differ.
\<close>

theorem otp_compared_as_strings:
  "(\<forall>kd \<in> set (fst (snd (sendOtp e s b))).
       kd \<in> set s \<or> (\<exists>code. toString (body_otp b) = Inr code \<and> otp (snd kd) = JStr code))
   \<and> (fst (sendOtp e s b) = Json msg usr \<longrightarrow>
        (\<exists>k code. toString (body_otp b) = Inr code \<and>
           fst (snd (sendOtp e s b)) =
             mergeFields k
               (\<lambda>d. d\<lparr>otp := JStr code, otpExpiresAt := Some (clock e + 5 * 60 * 1000)\<rparr>) s))
   \<and> (truthy (otp d) \<and> otpExpiresAt d = Some x \<and> clock e \<le> x
        \<and> toString (otp d) = Inr stored \<and> toString (body_otp b) = Inr given \<longrightarrow>
        verifyOtp_checks e (Some d) b =
          (if stored = given then Inr None else Inr (Some (errorResponse 400 ''Invalid OTP''))))
   \<and> (verifyOtp_checks e (Some d) b = Inr (Some (errorResponse 400 ''Invalid OTP'')) \<longrightarrow>
        toString (otp d) \<noteq> toString (body_otp b))
   \<and> (truthy (body_email b) \<and> truthy (body_otp b) \<and> truthy (body_uid b)
        \<and> verifyOtp_find e s b = (Inr (k, Some d), t)
        \<and> truthy (otp d) \<and> otpExpiresAt d = Some x \<and> clock e \<le> x
        \<and> toString (otp d) = Inr stored \<and> toString (body_otp b) = Inr given \<longrightarrow>
        (stored \<noteq> given \<longrightarrow>
           verifyOtp e s b = (errorResponse 400 ''Invalid OTP'', s, t))
        \<and> (stored = given \<and> storeFails e Update = None \<longrightarrow>
           fst (verifyOtp e s b) =
             Json ''Email verified successfully'' (Some (body_email b, body_uid b))))"
proof -
  have send: "kd \<in> set s \<or> (\<exists>code. toString (body_otp b) = Inr code \<and> otp (snd kd) = JStr code)"
    if mem: "kd \<in> set (fst (snd (sendOtp e s b)))" for kd
  proof -
    from sendOtp_store_cases [of e s b] show ?thesis
    proof
      assume "fst (snd (sendOtp e s b)) = s"
      with mem show ?thesis by simp
    next
      assume "\<exists>k code. toString (body_otp b) = Inr code \<and>
        fst (snd (sendOtp e s b)) =
          mergeFields k (\<lambda>d. d\<lparr>otp := JStr code, otpExpiresAt := Some (clock e + 5 * 60 * 1000)\<rparr>) s"
      then obtain k code where code: "toString (body_otp b) = Inr code"
        and "fst (snd (sendOtp e s b)) =
          mergeFields k (\<lambda>d. d\<lparr>otp := JStr code, otpExpiresAt := Some (clock e + 5 * 60 * 1000)\<rparr>) s"
        by blast
      with mem have "(fst kd, snd kd) \<in> set
          (mergeFields k (\<lambda>d. d\<lparr>otp := JStr code, otpExpiresAt := Some (clock e + 5 * 60 * 1000)\<rparr>) s)"
        by simp
      from set_mergeFields [OF this] code show ?thesis by auto
    qed
  qed
  have written: "\<exists>k code. toString (body_otp b) = Inr code \<and>
           fst (snd (sendOtp e s b)) =
             mergeFields k
               (\<lambda>d. d\<lparr>otp := JStr code, otpExpiresAt := Some (clock e + 5 * 60 * 1000)\<rparr>) s"
    if "fst (sendOtp e s b) = Json msg usr"
    using that by (rule sendOtp_success_writes)
  have differ: "toString (otp d) \<noteq> toString (body_otp b)"
    if "verifyOtp_checks e (Some d) b = Inr (Some (errorResponse 400 ''Invalid OTP''))"
    using that
    by (auto simp: verifyOtp_checks_def errorResponse_def Let_def
        split: sum.splits option.splits if_splits)
  have invalid: "verifyOtp e s b = (errorResponse 400 ''Invalid OTP'', s, t)"
    if "truthy (body_email b)" "truthy (body_otp b)" "truthy (body_uid b)"
      "verifyOtp_find e s b = (Inr (k, Some d), t)"
      "truthy (otp d)" "otpExpiresAt d = Some x" "clock e \<le> x"
      "toString (otp d) = Inr stored" "toString (body_otp b) = Inr given" "stored \<noteq> given"
    using that checks_compare [of d x e stored b given]
    by (simp add: verifyOtp_def verifyOtp_try_def errorResponse_def)
  have valid: "fst (verifyOtp e s b) =
             Json ''Email verified successfully'' (Some (body_email b, body_uid b))"
    if "truthy (body_email b)" "truthy (body_otp b)" "truthy (body_uid b)"
      and found: "verifyOtp_find e s b = (Inr (k, Some d), t)"
      and "truthy (otp d)" "otpExpiresAt d = Some x" "clock e \<le> x"
      "toString (otp d) = Inr stored" "toString (body_otp b) = Inr given" "stored = given"
      "storeFails e Update = None"
  proof -
    have "k \<in> fst ` set s" using verifyOtp_find_mem [OF found] by force
    then show ?thesis
      using that checks_compare [of d x e stored b given]
      by (simp add: verifyOtp_def verifyOtp_try_def docUpdate_def updateFields_def)
  qed
  show ?thesis
    using send written differ checks_compare [of d x e stored b given] invalid valid
    by blast
qed

theorem otp_compared_as_strings_witness:
  "sendOtp env0 store0 (body1\<lparr>body_otp := JNum ''123456''\<rparr>) =
     (Json ''OTP sent successfully'' None,
      [(''u1'', newUser\<lparr>otp := JStr ''123456'', otpExpiresAt := Some 301000\<rparr>)],
      [SendMail (JStr ''a@x.com''), DocGet ''u1'', DocSet ''u1''])
   \<and> fst (snd (sendOtp env0 store0 (body1\<lparr>body_otp := JArr [JNum ''12'', JNull, JBool True]\<rparr>))) =
      [(''u1'', newUser\<lparr>otp := JStr ''12,,true'', otpExpiresAt := Some 301000\<rparr>)]
   \<and> verifyOtp_checks env0 (Some alice) (body1\<lparr>body_otp := JNum ''123456''\<rparr>) = Inr None
   \<and> verifyOtp_checks env0 (Some alice) (body1\<lparr>body_otp := JStr ''123457''\<rparr>) =
       Inr (Some (Failure 400 ''Invalid OTP''))
   \<and> verifyOtp_checks env0 (Some (alice\<lparr>otp := JStr ''1000000000000000000000''\<rparr>))
        (body1\<lparr>body_otp := JNum ''1e+21''\<rparr>) = Inr (Some (Failure 400 ''Invalid OTP''))
   \<and> verifyOtp env0 store1 (body1\<lparr>body_otp := JNum ''123456''\<rparr>) =
      (Json ''Email verified successfully'' (Some (JStr ''a@x.com'', JStr ''u1'')),
       [(''u1'', markVerified env0 alice)],
       [DocGet ''u1'', DocUpdate ''u1'', AuthUpdateUser (JStr ''u1'')])
   \<and> verifyOtp env0 store1 (body1\<lparr>body_otp := JStr ''123457''\<rparr>) =
      (Failure 400 ''Invalid OTP'', store1, [DocGet ''u1''])"
  using otp_compared_as_strings [of env0 store0 "body1\<lparr>body_otp := JNum ''123456''\<rparr>"
      "''OTP sent successfully''" None alice 301000 "''123456''" "''123456''" "''u1''" "[DocGet ''u1'']"]
    otp_compared_as_strings [of env0 store1 "body1\<lparr>body_otp := JStr ''123457''\<rparr>"
      "''OTP sent successfully''" None alice 301000 "''123456''" "''123457''" "''u1''" "[DocGet ''u1'']"]
  by (simp add: handlers examples)

section \<open>The lookup of sendOtp\<close>

text \<open>Nor is the warning of line 83 ever logged.\<close>

lemma sendOtp_never_warns: "ConsoleWarn \<notin> set (snd (snd (sendOtp e s b)))"
  by (auto simp: sendOtp_def sendOtp_try_def sendOtp_save_def sendOtp_find_def store_calls Let_def
      split: sum.splits option.splits prod.splits if_splits)

text \<open>
  C2, at a request with an email and a code and no uid, for the user \<open>u1\<close> who has
  that email. If \<^verbatim>\<open>doc(undefined)\<close> throws, the mail is sent and the answer is
  500; if it returns a fresh reference, the pending code is written into a new
  document under that reference. Either way the document found by the email
  holds no pending code afterwards.
\<close>

theorem sendOtp_email_only_evaluation:
  "sendOtp env0 store0 (body1\<lparr>body_uid := JUndefined\<rparr>) =
     (Failure 500 ''Failed to send OTP. Path must be a non-empty string'', store0,
      [SendMail (JStr ''a@x.com''), ConsoleError])
   \<and> sendOtp (env0\<lparr>docOfOther := (\<lambda>v. Inr ''auto1'')\<rparr>) store0 (body1\<lparr>body_uid := JUndefined\<rparr>) =
     (Json ''OTP sent successfully'' None,
      [(''u1'', newUser),
       (''auto1'', no_fields\<lparr>otp := JStr ''123456'', otpExpiresAt := Some 301000\<rparr>)],
      [SendMail (JStr ''a@x.com''), DocSet ''auto1''])"
  by (simp add: handlers examples)

theorem sendOtp_email_only_evaluation_witness:
  "queryEquals email (JStr ''a@x.com'')
     (fst (snd (sendOtp env0 store0 (body1\<lparr>body_uid := JUndefined\<rparr>)))) = Some (''u1'', newUser)
   \<and> queryEquals email (JStr ''a@x.com'')
     (fst (snd (sendOtp (env0\<lparr>docOfOther := (\<lambda>v. Inr ''auto1'')\<rparr>) store0
        (body1\<lparr>body_uid := JUndefined\<rparr>)))) = Some (''u1'', newUser)
   \<and> otp newUser = JUndefined"
  using sendOtp_email_only_evaluation
  by (simp add: queryEquals_def examples no_fields_def)

text \<open>
  C3, at a request whose uid and email belong to no document: neither the id,
  nor the \<^verbatim>\<open>uid\<close> field, nor the \<^verbatim>\<open>email\<close> field of any document answers. sendOtp
  answers with success and creates the document \<open>ghost\<close>, holding the pending code
  and its expiry.
\<close>

theorem sendOtp_unresolved_evaluation:
  "getById store0 ''ghost'' = None
   \<and> queryEquals uid (JStr ''ghost'') store0 = None
   \<and> queryEquals email (JStr ''nobody@x.com'') store0 = None
   \<and> sendOtp env0 store0
       \<lparr>body_email = JStr ''nobody@x.com'', body_otp = JStr ''123456'', body_uid = JStr ''ghost''\<rparr> =
     (Json ''OTP sent successfully'' None,
      [(''u1'', newUser),
       (''ghost'', no_fields\<lparr>otp := JStr ''123456'', otpExpiresAt := Some 301000\<rparr>)],
      [SendMail (JStr ''nobody@x.com''), DocGet ''ghost'', QueryUid (JStr ''ghost''), DocSet ''ghost''])"
  by (simp add: handlers examples)

theorem sendOtp_unresolved_evaluation_witness:
  "getById (fst (snd (sendOtp env0 store0
       \<lparr>body_email = JStr ''nobody@x.com'', body_otp = JStr ''123456'', body_uid = JStr ''ghost''\<rparr>)))
     ''ghost'' = Some (no_fields\<lparr>otp := JStr ''123456'', otpExpiresAt := Some 301000\<rparr>)"
  using sendOtp_unresolved_evaluation
  by (simp add: getById_def)

end
